theory Spec2Isabelle
  imports Complex_Main
begin

section \<open>Shared helpers: Go panics, decimal formatting\<close>

text \<open>
  A Go run-time panic is a value of the model: indexing an empty slice and slicing past
  the end of a slice are the two that the modelled functions can reach.  A slice is a
  list; its capacity is taken to be its length, so a slice expression whose bound lies
  past the length panics.
\<close>

datatype go_panic = IndexOutOfRange | SliceBoundsOutOfRange

text \<open>\<open>%d\<close> of \<open>fmt.Sprintf\<close>: the decimal digits of an integer, with a minus sign.\<close>

definition digit_char :: "nat \<Rightarrow> char" where
  "digit_char d = ''0123456789'' ! d"

fun nat_dec :: "nat \<Rightarrow> string" where
  "nat_dec n = (if n < 10 then [digit_char n] else nat_dec (n div 10) @ [digit_char (n mod 10)])"

declare nat_dec.simps [simp del]

definition int_dec :: "int \<Rightarrow> string" where
  "int_dec i = (if i < 0 then CHR ''-'' # nat_dec (nat (- i)) else nat_dec (nat i))"


section \<open>Conversation messages (package llm)\<close>

text \<open>
  \<open>Role\<close> and \<open>ContentType\<close> are string types with named constants.  The input of a
  tool-use block is a JSON object which none of the modelled functions inspects: it is the
  type parameter of a block.
\<close>

type_synonym Role = string
type_synonym ContentType = string

abbreviation RoleUser :: Role where "RoleUser \<equiv> ''user''"
abbreviation RoleAssistant :: Role where "RoleAssistant \<equiv> ''assistant''"
abbreviation ContentTypeText :: ContentType where "ContentTypeText \<equiv> ''text''"
abbreviation ContentTypeToolUse :: ContentType where "ContentTypeToolUse \<equiv> ''tool_use''"
abbreviation ContentTypeToolResult :: ContentType where "ContentTypeToolResult \<equiv> ''tool_result''"

record 'i ContentBlock =
  Type :: ContentType
  Text :: string
  ID :: string
  Name :: string
  Input :: 'i
  ToolUseID :: string
  Content :: string
  IsError :: bool

record 'i Message =
  Role :: Role
  MContent :: "'i ContentBlock list"

definition NewTextMessage :: "Role \<Rightarrow> string \<Rightarrow> 'i \<Rightarrow> 'i Message" where
  "NewTextMessage role text noInput =
     \<lparr>Role = role,
      MContent = [\<lparr>Type = ContentTypeText, Text = text, ID = [], Name = [], Input = noInput,
                   ToolUseID = [], Content = [], IsError = False\<rparr>]\<rparr>"

definition NewToolResultMessage :: "string \<Rightarrow> string \<Rightarrow> bool \<Rightarrow> 'i \<Rightarrow> 'i Message" where
  "NewToolResultMessage toolUseID content isError noInput =
     \<lparr>Role = RoleUser,
      MContent = [\<lparr>Type = ContentTypeToolResult, Text = [], ID = [], Name = [], Input = noInput,
                   ToolUseID = toolUseID, Content = content, IsError = isError\<rparr>]\<rparr>"

text \<open>\<open>Message.GetText\<close>: the texts of the text blocks, joined by newlines.\<close>

primrec GetText_loop :: "string \<Rightarrow> 'i ContentBlock list \<Rightarrow> string" where
  "GetText_loop result [] = result"
| "GetText_loop result (block # rest) =
     (if Type block = ContentTypeText
      then GetText_loop ((if result \<noteq> [] then result @ [CHR 0x0A] else result) @ Text block) rest
      else GetText_loop result rest)"

definition GetText :: "'i ContentBlock list \<Rightarrow> string" where
  "GetText content = GetText_loop [] content"

text \<open>
  A provider call: the request carries the system prompt and the messages (the summary
  request has no tools); the answer is an error or the content blocks of the response.
\<close>

record 'i AgentRequest =
  System :: string
  Messages :: "'i Message list"

type_synonym 'i LLMProvider = "'i AgentRequest \<Rightarrow> string + 'i ContentBlock list"

text \<open>All blocks of a message list, in order.\<close>

definition blocks_of :: "'i Message list \<Rightarrow> 'i ContentBlock list" where
  "blocks_of messages = concat (map MContent messages)"


section \<open>The agent loop: validation and truncation of the history\<close>

subsection \<open>validateToolPairs\<close>

text \<open>
  The first loop collects the non-empty ids of all tool-use blocks of the list (a Go
  \<open>map[string]bool\<close>, here a set).  The second loop collects one orphan entry per
  tool-result block whose id is empty or is not in that set: the index of the message and
  the id (\<open>empty_id\<close> for an empty one).  The error is returned when there is an orphan.
\<close>

definition tool_use_ids :: "'i ContentBlock list \<Rightarrow> string set" where
  "tool_use_ids bs = set (map ID (filter (\<lambda>b. Type b = ContentTypeToolUse \<and> ID b \<noteq> []) bs))"

definition block_orphans :: "string set \<Rightarrow> nat \<Rightarrow> 'i ContentBlock \<Rightarrow> (nat \<times> string) list" where
  "block_orphans toolUseIDs i block =
     (if Type block = ContentTypeToolResult then
        (if ToolUseID block = [] then [(i, ''empty_id'')]
         else if ToolUseID block \<notin> toolUseIDs then [(i, ToolUseID block)]
         else [])
      else [])"

definition message_orphans :: "string set \<Rightarrow> nat \<times> 'i Message \<Rightarrow> (nat \<times> string) list" where
  "message_orphans toolUseIDs im =
     concat (map (block_orphans toolUseIDs (fst im)) (MContent (snd im)))"

datatype validation_error = OrphanedToolResults "(nat \<times> string) list"

definition validateToolPairs :: "'i Message list \<Rightarrow> validation_error option" where
  "validateToolPairs messages =
     (let toolUseIDs = tool_use_ids (blocks_of messages);
          orphans = concat (map (message_orphans toolUseIDs) (enumerate 0 messages))
      in if length orphans > 0 then Some (OrphanedToolResults orphans) else None)"

subsection \<open>truncateMessages\<close>

text \<open>
  \<open>collectToolUseIDs(from, includeFirst)\<close>: the non-empty tool-use ids of
  \<open>messages[from:]\<close>, and of \<open>messages[0]\<close> when asked.  It is only called on a
  non-empty list.
\<close>

definition collectToolUseIDs :: "'i Message list \<Rightarrow> nat \<Rightarrow> bool \<Rightarrow> string set" where
  "collectToolUseIDs messages from includeFirst =
     (if includeFirst then tool_use_ids (MContent (hd messages)) else {})
     \<union> tool_use_ids (blocks_of (drop from messages))"

text \<open>
  The innermost search: \<open>for j := keepFrom - 1; j >= 1; j--\<close>, the largest index in
  \<open>1 .. keepFrom - 1\<close> of a message with a tool-use block of the wanted id.
\<close>

definition has_tool_use :: "'i Message \<Rightarrow> string \<Rightarrow> bool" where
  "has_tool_use m tid = (\<exists>b \<in> set (MContent m). Type b = ContentTypeToolUse \<and> ID b = tid)"

primrec find_tool_use_msg :: "'i Message list \<Rightarrow> nat \<Rightarrow> string \<Rightarrow> nat option" where
  "find_tool_use_msg messages 0 tid = None"
| "find_tool_use_msg messages (Suc j) tid =
     (if has_tool_use (messages ! Suc j) tid then Some (Suc j)
      else find_tool_use_msg messages j tid)"

text \<open>
  One pass of the fixed-point loop over the blocks of \<open>messages[keepFrom:]\<close>: the first
  tool-result block with a non-empty id outside \<open>toolUseIDs\<close> whose tool-use is found
  below \<open>keepFrom\<close> moves \<open>keepFrom\<close> there and ends the pass (\<open>changed\<close>); a block
  whose tool-use is not found is passed over.
\<close>

primrec expand_pass :: "'i Message list \<Rightarrow> nat \<Rightarrow> string set \<Rightarrow> 'i ContentBlock list \<Rightarrow> nat option" where
  "expand_pass messages keepFrom toolUseIDs [] = None"
| "expand_pass messages keepFrom toolUseIDs (block # rest) =
     (if Type block = ContentTypeToolResult \<and> ToolUseID block \<noteq> []
         \<and> ToolUseID block \<notin> toolUseIDs
      then (case find_tool_use_msg messages (keepFrom - 1) (ToolUseID block) of
              Some j \<Rightarrow> Some j
            | None \<Rightarrow> expand_pass messages keepFrom toolUseIDs rest)
      else expand_pass messages keepFrom toolUseIDs rest)"

text \<open>The loop \<open>for iteration := 0; iteration < 100; iteration++\<close>, by its remaining passes.\<close>

primrec expand_keepFrom :: "nat \<Rightarrow> 'i Message list \<Rightarrow> nat \<Rightarrow> nat" where
  "expand_keepFrom 0 messages keepFrom = keepFrom"
| "expand_keepFrom (Suc n) messages keepFrom =
     (case expand_pass messages keepFrom (collectToolUseIDs messages keepFrom True)
             (blocks_of (drop keepFrom messages)) of
        None \<Rightarrow> keepFrom
      | Some j \<Rightarrow> expand_keepFrom n messages j)"

text \<open>
  The final validation of the source only writes to the log.  \<open>messages[0]\<close> panics on
  an empty list and \<open>messages[keepFrom:]\<close> panics when \<open>keepFrom\<close> is past the length.
\<close>

definition truncateMessages :: "'i Message list \<Rightarrow> int \<Rightarrow> go_panic + 'i Message list" where
  "truncateMessages messages maxMessages =
     (if int (length messages) \<le> maxMessages then Inr messages
      else
        let keepFrom0 = int (length messages) - maxMessages + 1;
            keepFrom1 = (if keepFrom0 < 1 then 1 else keepFrom0)
        in if messages = [] then Inl IndexOutOfRange
           else
             let keepFrom = expand_keepFrom 100 messages (nat keepFrom1)
             in if keepFrom > length messages then Inl SliceBoundsOutOfRange
                else Inr (hd messages # drop keepFrom messages))"


section \<open>Context compaction (the Compactor)\<close>

record CompactConfig =
  Enabled :: bool
  Threshold :: int
  KeepRecent :: int

definition compactSummaryPrompt :: string where
  "compactSummaryPrompt =
     ''You are a conversation summarizer. Your task is to create a ''
     @ ''concise but comprehensive summary of the conversation histor''
     @ ''y that preserves all important context for continuing the ta'' @ ''sk.''
     @ [CHR 0x0A, CHR 0x0A] @ ''Your summary MUST include:'' @ [CHR 0x0A]
     @ ''1. **Original Task**: What was the user'' @ [CHR 0x27] @ ''s initial request/goal?''
     @ [CHR 0x0A] @ ''2. **Key Decisions**: Important decisions made during the co''
     @ ''nversation'' @ [CHR 0x0A]
     @ ''3. **Files Modified**: List of files that were read, created''
     @ '', or modified with brief descriptions of changes'' @ [CHR 0x0A]
     @ ''4. **Current State**: What has been accomplished so far?'' @ [CHR 0x0A]
     @ ''5. **Pending Work**: What still needs to be done?'' @ [CHR 0x0A]
     @ ''6. **Important Context**: Any critical information needed to''
     @ '' continue (error messages, specific requirements, etc.)'' @ [CHR 0x0A, CHR 0x0A]
     @ ''Format your summary as a structured document. Be concise but'' @ '' don'' @ [CHR 0x27]
     @ ''t omit important details.'' @ [CHR 0x0A]
     @ ''Do NOT include tool call details or raw outputs - just summa''
     @ ''rize the key information.''"

definition ShouldCompact :: "CompactConfig \<Rightarrow> 'i Message list \<Rightarrow> bool" where
  "ShouldCompact config messages =
     (if \<not> Enabled config then False else int (length messages) > Threshold config)"

subsection \<open>formatMessagesForSummary\<close>

definition format_block :: "'i ContentBlock \<Rightarrow> string" where
  "format_block block =
     (if Type block = ContentTypeText then
        (if Text block \<noteq> [] then Text block @ [CHR 0x0A] else [])
      else if Type block = ContentTypeToolUse then
        ''[Tool Call: '' @ Name block @ '']'' @ [CHR 0x0A]
      else if Type block = ContentTypeToolResult then
        (let content = (if length (Content block) > 500
                        then take 500 (Content block) @ ''... (truncated)''
                        else Content block)
         in if IsError block then ''[Tool Error: '' @ content @ '']'' @ [CHR 0x0A]
            else ''[Tool Result: '' @ content @ '']'' @ [CHR 0x0A])
      else [])"

definition format_message :: "nat \<times> 'i Message \<Rightarrow> string" where
  "format_message im =
     (let role = (if Role (snd im) = ''assistant'' then ''Assistant''
                  else if Role (snd im) = ''user'' then ''User'' else Role (snd im))
      in ''--- Message '' @ nat_dec (fst im + 1) @ '' ('' @ role @ '') ---'' @ [CHR 0x0A]
         @ concat (map format_block (MContent (snd im))) @ [CHR 0x0A])"

definition formatMessagesForSummary :: "'i Message list \<Rightarrow> string" where
  "formatMessagesForSummary messages = concat (map format_message (enumerate 0 messages))"

subsection \<open>generateSummary\<close>

text \<open>
  One provider call, with the summarizer prompt and a single user message.  A failed call
  and an empty response text are both errors.  \<open>noInput\<close> is the (absent) tool input of
  the text block of the request.
\<close>

definition summary_request :: "'i \<Rightarrow> string \<Rightarrow> 'i AgentRequest" where
  "summary_request noInput conversationText =
     \<lparr>System = compactSummaryPrompt,
      Messages = [NewTextMessage RoleUser
        (''Please summarize the following conversation:'' @ [CHR 0x0A, CHR 0x0A] @ conversationText)
        noInput]\<rparr>"

definition generateSummary :: "'i LLMProvider \<Rightarrow> 'i \<Rightarrow> string \<Rightarrow> string + string" where
  "generateSummary provider noInput conversationText =
     (case provider (summary_request noInput conversationText) of
        Inl err \<Rightarrow> Inl (''summary generation failed: '' @ err)
      | Inr content \<Rightarrow>
          (let summary = GetText content
           in if summary = [] then Inl ''summary generation returned empty response''
              else Inr summary))"

subsection \<open>ensureToolPairsIntact\<close>

definition ensureToolPairsIntact :: "'i Message list \<Rightarrow> 'i Message list \<Rightarrow> 'i Message list" where
  "ensureToolPairsIntact recentMessages olderMessages =
     (let recentToolUseIDs = tool_use_ids (blocks_of recentMessages);
          orphanedResults = set (map ToolUseID (filter
             (\<lambda>block. Type block = ContentTypeToolResult \<and> ToolUseID block \<noteq> []
                       \<and> ToolUseID block \<notin> recentToolUseIDs)
             (blocks_of recentMessages)))
      in if orphanedResults = {} then recentMessages
         else
           let toolUseMessages = filter
                 (\<lambda>msg. \<exists>block \<in> set (MContent msg).
                          Type block = ContentTypeToolUse \<and> ID block \<in> orphanedResults)
                 olderMessages
           in if length toolUseMessages = 0 then recentMessages
              else toolUseMessages @ recentMessages)"

subsection \<open>Compact\<close>

text \<open>
  The result of \<open>Compact\<close> is the pair of the source (the messages and the error, which
  is \<open>nil\<close> on every path) together with the provider requests made on the way, in order.
  \<open>messages[1:summarizeEnd]\<close> panics when \<open>summarizeEnd\<close> is past the length, which a
  negative \<open>KeepRecent\<close> causes.
\<close>

type_synonym 'i compact_result = "('i Message list \<times> string option) \<times> 'i AgentRequest list"

definition summary_message :: "'i \<Rightarrow> nat \<Rightarrow> string \<Rightarrow> 'i Message" where
  "summary_message noInput n summary =
     \<lparr>Role = RoleAssistant,
      MContent = [\<lparr>Type = ContentTypeText,
                   Text = ''[Conversation Summary - '' @ nat_dec n @ '' messages compacted]''
                          @ [CHR 0x0A, CHR 0x0A] @ summary,
                   ID = [], Name = [], Input = noInput,
                   ToolUseID = [], Content = [], IsError = False\<rparr>]\<rparr>"

definition Compact ::
  "'i LLMProvider \<Rightarrow> CompactConfig \<Rightarrow> 'i \<Rightarrow> 'i Message list \<Rightarrow> go_panic + 'i compact_result" where
  "Compact provider config noInput messages =
     (if int (length messages) \<le> KeepRecent config + 1 then Inr ((messages, None), [])
      else
        let summarizeEnd = int (length messages) - KeepRecent config
        in if summarizeEnd \<le> 1 then Inr ((messages, None), [])
           else if summarizeEnd > int (length messages) then Inl SliceBoundsOutOfRange
           else
             let messagesToSummarize = drop 1 (take (nat summarizeEnd) messages);
                 conversationText = formatMessagesForSummary messagesToSummarize;
                 calls = [summary_request noInput conversationText]
             in case generateSummary provider noInput conversationText of
                  Inl err \<Rightarrow>
                    (case truncateMessages messages (KeepRecent config + 1) of
                       Inl p \<Rightarrow> Inl p
                     | Inr truncated \<Rightarrow> Inr ((truncated, None), calls))
                | Inr summary \<Rightarrow>
                    (let recentMessages = ensureToolPairsIntact
                           (drop (nat summarizeEnd) messages) (take (nat summarizeEnd) messages)
                     in Inr ((hd messages
                              # summary_message noInput (length messagesToSummarize) summary
                              # recentMessages, None), calls)))"

section \<open>The history management of one iteration of \<open>AgentLoop.Run\<close>\<close>

text \<open>
  The part of the loop body between reading \<open>state.Messages\<close> and building the provider
  request.  Its result is the list sent to the provider and the new \<open>state.Messages\<close>
  (which the success branch of the compaction overwrites), with the provider requests of
  the compaction.  \<open>maxMessages\<close> is the request's limit, 50 when that is not positive.
\<close>

definition defaultMaxMessages :: int where
  "defaultMaxMessages = 50"

definition Run_history ::
  "'i LLMProvider \<Rightarrow> CompactConfig \<Rightarrow> int \<Rightarrow> 'i \<Rightarrow> 'i Message list
     \<Rightarrow> go_panic + ('i Message list \<times> 'i Message list)" where
  "Run_history provider compactConfig reqMaxMessages noInput stateMessages =
     (let maxMessages = (if reqMaxMessages \<le> 0 then defaultMaxMessages else reqMaxMessages);
          compacted =
            (if Enabled compactConfig \<and> ShouldCompact compactConfig stateMessages
             then (case Compact provider compactConfig noInput stateMessages of
                     Inl p \<Rightarrow> Inl p
                   | Inr ((compactedMessages, err), calls) \<Rightarrow>
                       (case err of
                          Some e \<Rightarrow> Inr (stateMessages, stateMessages)
                        | None \<Rightarrow> Inr (compactedMessages, compactedMessages)))
             else Inr (stateMessages, stateMessages))
      in case compacted of
           Inl p \<Rightarrow> Inl p
         | Inr (messages, stateMessages') \<Rightarrow>
             (case (if int (length messages) > maxMessages
                    then truncateMessages messages maxMessages else Inr messages) of
                Inl p \<Rightarrow> Inl p
              | Inr messages' \<Rightarrow>
                  (case validateToolPairs messages' of
                     Some e \<Rightarrow> Inr (stateMessages', stateMessages')
                   | None \<Rightarrow> Inr (messages', stateMessages'))))"


subsection \<open>The two readings of the history invariant, and sample conversations\<close>

text \<open>
  The specification's reading of an intact history: every tool-result block is preceded,
  somewhere earlier in the flattened block sequence, by a tool-use block of the same id.
  \<open>seen\<close> is the set of tool-use ids met so far.
\<close>

primrec tool_results_paired_earlier :: "string set \<Rightarrow> 'i ContentBlock list \<Rightarrow> bool" where
  "tool_results_paired_earlier seen [] = True"
| "tool_results_paired_earlier seen (b # bs) =
     ((if Type b = ContentTypeToolResult then ToolUseID b \<in> seen else True)
      \<and> tool_results_paired_earlier
            (if Type b = ContentTypeToolUse then insert (ID b) seen else seen) bs)"


text \<open>An assistant message with one tool-use block, and two providers, for the examples.\<close>

definition tool_use_message :: "string \<Rightarrow> string \<Rightarrow> 'i \<Rightarrow> 'i Message" where
  "tool_use_message tid name input =
     \<lparr>Role = RoleAssistant,
      MContent = [\<lparr>Type = ContentTypeToolUse, Text = [], ID = tid, Name = name, Input = input,
                   ToolUseID = [], Content = [], IsError = False\<rparr>]\<rparr>"

definition failing_provider :: "unit LLMProvider" where
  "failing_provider req = Inl ''provider unavailable''"

definition summarizing_provider :: "unit LLMProvider" where
  "summarizing_provider req =
     Inr [\<lparr>Type = ContentTypeText, Text = ''S'', ID = [], Name = [], Input = (),
           ToolUseID = [], Content = [], IsError = False\<rparr>]"

text \<open>
  \<open>conversation_A\<close>: a tool result that comes before its tool use.
  \<open>conversation_B\<close>: a tool result whose tool use is nowhere.
  \<open>conversation_C\<close>: five text messages.
\<close>

definition conversation_A :: "unit Message list" where
  "conversation_A =
     [NewTextMessage RoleUser ''task'' (), NewTextMessage RoleAssistant ''ok'' (),
      NewToolResultMessage ''a'' ''out'' False (), tool_use_message ''a'' ''bash'' ()]"

definition conversation_B :: "unit Message list" where
  "conversation_B =
     [NewTextMessage RoleUser ''task'' (), NewTextMessage RoleAssistant ''ok'' (),
      NewTextMessage RoleUser ''go on'' (), NewToolResultMessage ''x'' ''out'' False ()]"



section \<open>Go string helpers\<close>







text \<open>\<open>strings.Split\<close> on a one-byte separator, and \<open>strings.Join\<close>.\<close>

primrec split_on :: "char \<Rightarrow> string \<Rightarrow> string list" where
  "split_on sep [] = [[]]"
| "split_on sep (c # cs) =
     (if c = sep then [] # split_on sep cs
      else (case split_on sep cs of p # ps \<Rightarrow> (c # p) # ps | [] \<Rightarrow> [[c]]))"

primrec join :: "string \<Rightarrow> string list \<Rightarrow> string" where
  "join sep [] = []"
| "join sep (x # xs) = (if xs = [] then x else x @ sep @ join sep xs)"


section \<open>The workflow engine: the issue path\<close>

subsection \<open>Data\<close>

record EngineConfig =
  TriggerLabels :: "string list"
  NeedsInfoLabel :: string
  InProgressLabel :: string
  DoneLabel :: string
  GitHubToken :: string



record Issue =
  Number :: int
  State :: string
  Title :: string
  Body :: string
  Labels :: "string list"
  Author :: string

record Comment =
  User :: string
  CBody :: string


text \<open>The LLM Outcome (\<open>llm.Response\<close>); the files map is an association list.\<close>

type_synonym Decision = string

abbreviation DecisionNeedsInfo :: Decision where "DecisionNeedsInfo \<equiv> ''needs_info''"

record Response =
  Decision :: Decision
  NeedsInfoComment :: string
  CommitMessage :: string
  PRTitle :: string
  PRBody :: string
  Patch :: string
  Files :: "(string \<times> string) list"
  Summary :: string





subsection \<open>Helpers of the engine\<close>


text \<open>
  \<open>updateProgressLabels\<close> builds two Go maps used as sets: the non-empty labels to remove,
  and the current labels that are not removed, to which the non-empty label to add is
  added.  The result lists the keys of the second map in the order of the iteration.
\<close>

definition updateProgressLabels ::
  "(string list \<Rightarrow> string list) \<Rightarrow> string list \<Rightarrow> string \<Rightarrow> string list \<Rightarrow> string list" where
  "updateProgressLabels order current add remove =
     (let removeSet = set (filter (\<lambda>label. label \<noteq> []) remove);
          labels = remdups (filter (\<lambda>label. label \<notin> removeSet) current);
          labels' = (if add \<noteq> [] then (if add \<in> set labels then labels else labels @ [add])
                     else labels)
      in order labels')"



definition RepoSubdir :: string where
  "RepoSubdir = ''repo''"

text \<open>
  The three label transitions of \<open>handleIssue\<close> (steps 8, 11 and 18): the label to add and
  the labels to remove, the other two status labels followed by the trigger labels.
\<close>

definition labels_in_progress :: "EngineConfig \<Rightarrow> (string list \<Rightarrow> string list) \<Rightarrow> string list \<Rightarrow> string list" where
  "labels_in_progress cfg order current =
     updateProgressLabels order current (InProgressLabel cfg)
       ([DoneLabel cfg, NeedsInfoLabel cfg] @ TriggerLabels cfg)"

definition labels_needs_info :: "EngineConfig \<Rightarrow> (string list \<Rightarrow> string list) \<Rightarrow> string list \<Rightarrow> string list" where
  "labels_needs_info cfg order current =
     updateProgressLabels order current (NeedsInfoLabel cfg)
       ([InProgressLabel cfg, DoneLabel cfg] @ TriggerLabels cfg)"

definition labels_done :: "EngineConfig \<Rightarrow> (string list \<Rightarrow> string list) \<Rightarrow> string list \<Rightarrow> string list" where
  "labels_done cfg order current =
     updateProgressLabels order current (DoneLabel cfg)
       ([InProgressLabel cfg, NeedsInfoLabel cfg] @ TriggerLabels cfg)"

subsection \<open>handleIssue\<close>








subsection \<open>Actions that change the repository, and a sample run\<close>


definition sample_config :: EngineConfig where
  "sample_config =
     \<lparr>TriggerLabels = [''ai-ready''], NeedsInfoLabel = ''ai-needs-info'',
      InProgressLabel = ''ai-in-progress'', DoneLabel = ''ai-done'', GitHubToken = ''t''\<rparr>"




section \<open>Tools: the tool context and the bash tool\<close>

subsection \<open>Tool results and the tool context (package tools)\<close>

record ToolResult =
  ResultContent :: string
  ResultIsError :: bool

definition NewToolResult :: "string \<Rightarrow> ToolResult" where
  "NewToolResult content = \<lparr>ResultContent = content, ResultIsError = False\<rparr>"

definition NewErrorResult :: "string \<Rightarrow> ToolResult" where
  "NewErrorResult err = \<lparr>ResultContent = err, ResultIsError = True\<rparr>"

record Permissions =
  AllowBash :: bool
  AllowFileRead :: bool
  AllowFileWrite :: bool
  AllowGit :: bool
  AllowGitHub :: bool
  AllowNetwork :: bool

record ToolContext =
  WorkDir :: string
  ToolPermissions :: Permissions
  ToolGitHubToken :: string
  RepoOwner :: string
  RepoName :: string
  Env :: "(string \<times> string) list"
  BashTimeout :: int

datatype toolError = ErrNoWorkDir | ErrPathOutsideWorkDir | ErrPermissionDenied
  | ErrBashNotAllowed | ErrFileReadNotAllowed | ErrFileWriteNotAllowed | ErrGitNotAllowed
  | ErrGitHubNotAllowed | ErrNetworkNotAllowed | ErrOther string

fun toolError_text :: "toolError \<Rightarrow> string" where
  "toolError_text ErrNoWorkDir = ''working directory not set''"
| "toolError_text ErrPathOutsideWorkDir = ''path is outside working directory''"
| "toolError_text ErrPermissionDenied = ''permission denied''"
| "toolError_text ErrBashNotAllowed = ''bash execution not allowed''"
| "toolError_text ErrFileReadNotAllowed = ''file read not allowed''"
| "toolError_text ErrFileWriteNotAllowed = ''file write not allowed''"
| "toolError_text ErrGitNotAllowed = ''git operations not allowed''"
| "toolError_text ErrGitHubNotAllowed = ''github operations not allowed''"
| "toolError_text ErrNetworkNotAllowed = ''network operations not allowed''"
| "toolError_text (ErrOther s) = s"

definition CheckBash :: "ToolContext \<Rightarrow> toolError option" where
  "CheckBash c = (if \<not> AllowBash (ToolPermissions c) then Some ErrBashNotAllowed else None)"

subsection \<open>The bash tool\<close>

text \<open>
  The input of a tool is a JSON object decoded into a Go \<open>map[string]any\<close>: a number is a
  \<open>float64\<close>, here a real number.
\<close>

datatype go_value = String string | Float64 real | Bool bool | Nil | Other

type_synonym tool_input = "string \<Rightarrow> go_value option"

text \<open>
  \<open>strings.ToLower\<close> on the ASCII letters and on the two runes beyond ASCII whose lower case
  is an ASCII letter (U+212A, the Kelvin sign, and U+0130).  The lower case of any other rune
  is not ASCII, so it plays no part in the search for the ASCII patterns below.
\<close>

definition lower_char :: "char \<Rightarrow> char" where
  "lower_char c = (if of_char c \<in> {65 .. (90::nat)} then char_of (of_char c + (32::nat)) else c)"

fun ToLower :: "string \<Rightarrow> string" where
  "ToLower [] = []"
| "ToLower (c # cs) =
     (case cs of
        d # ds \<Rightarrow>
          if c = CHR 0xC4 \<and> d = CHR 0xB0 then CHR ''i'' # ToLower ds
          else (case ds of
              e # es \<Rightarrow>
                if c = CHR 0xE2 \<and> d = CHR 0x84 \<and> e = CHR 0xAA then CHR ''k'' # ToLower es
                else lower_char c # ToLower cs
            | [] \<Rightarrow> lower_char c # ToLower cs)
      | [] \<Rightarrow> [lower_char c])"

text \<open>\<open>strings.Contains\<close>: the second string occurs in the first.\<close>

primrec Contains :: "string \<Rightarrow> string \<Rightarrow> bool" where
  "Contains [] sub = (sub = [])"
| "Contains (c # cs) sub = (take (length sub) (c # cs) = sub \<or> Contains cs sub)"

definition dangerous :: "string list" where
  "dangerous = [''rm -rf /'', ''rm -rf ~'', ''mkfs'', ''dd if=/dev/'', '':(){:|:&};:'',
     ''> /dev/sd'', ''chmod -R 777 /'']"

definition validateCommand :: "string \<Rightarrow> string option" where
  "validateCommand command =
     (case filter (\<lambda>d. Contains (ToLower command) d) dangerous of
        [] \<Rightarrow> None
      | d # ds \<Rightarrow> Some (''potentially dangerous command blocked: '' @ d))"

text \<open>
  The conversion \<open>int(t)\<close> of a positive \<open>float64\<close> drops the fraction.  For a value that
  does not fit into 64 bits the result depends on the platform; it is the parameter
  \<open>unfit\<close>.
\<close>

definition float64_to_int :: "int \<Rightarrow> real \<Rightarrow> int" where
  "float64_to_int unfit t = (if \<bar>t\<bar> < 2 ^ 63 then (if t < 0 then \<lceil>t\<rceil> else \<lfloor>t\<rfloor>) else unfit)"

text \<open>The timeout of \<open>Execute\<close>, in seconds.\<close>

definition bash_timeout :: "int \<Rightarrow> ToolContext \<Rightarrow> tool_input \<Rightarrow> int" where
  "bash_timeout unfit toolCtx input =
     (let timeout = BashTimeout toolCtx;
          timeout = (case input ''timeout'' of
                       Some (Float64 t) \<Rightarrow> if t > 0 then float64_to_int unfit t else timeout
                     | _ \<Rightarrow> timeout);
          timeout = (if timeout > 300 then 300 else timeout);
          timeout = (if timeout < 1 then 60 else timeout)
      in timeout)"

text \<open>
  Running the command under its deadline is outside the model: for a command and a timeout
  the world gives what was captured on the two output streams, the error of \<open>cmd.Run\<close>
  and the error of the context after the run.
\<close>

datatype ctx_error = DeadlineExceeded | Canceled

record CmdOutcome =
  stdout :: string
  stderr :: string
  run_err :: "string option"
  ctx_err :: "ctx_error option"

definition command_output :: "CmdOutcome \<Rightarrow> string" where
  "command_output out =
     (let result = (if length (stdout out) > 0 then stdout out else []);
          result = (if length (stderr out) > 0
                    then (if length result > 0 then result @ [CHR 0x0A] else result)
                         @ ''STDERR:'' @ [CHR 0x0A] @ stderr out
                    else result)
      in result)"

definition Execute ::
  "(string \<Rightarrow> int \<Rightarrow> CmdOutcome) \<Rightarrow> int \<Rightarrow> ToolContext \<Rightarrow> tool_input \<Rightarrow> ToolResult" where
  "Execute run_bash unfit toolCtx input =
     (case CheckBash toolCtx of
        Some err \<Rightarrow> NewErrorResult (toolError_text err)
      | None \<Rightarrow>
     (case (case input ''command'' of Some (String command) \<Rightarrow> Some command | _ \<Rightarrow> None) of
        None \<Rightarrow> NewErrorResult ''command is required''
      | Some command \<Rightarrow>
     if command = [] then NewErrorResult ''command is required'' else
     (case validateCommand command of
        Some err \<Rightarrow> NewErrorResult err
      | None \<Rightarrow>
     (let timeout = bash_timeout unfit toolCtx input;
          out = run_bash command timeout;
          result = command_output out
      in case run_err out of
           Some err \<Rightarrow>
             if ctx_err out = Some DeadlineExceeded then
               \<lparr>ResultContent = ''Command timed out after '' @ int_dec timeout @ '' seconds''
                                 @ [CHR 0x0A] @ result,
                ResultIsError = True\<rparr>
             else
               \<lparr>ResultContent = ''Command failed: '' @ err @ [CHR 0x0A] @ result,
                ResultIsError = True\<rparr>
         | None \<Rightarrow> NewToolResult (if result = [] then ''(no output)'' else result)))))"

text \<open>The specification's reading of the timeout: a value clamped to the range 1 to 300.\<close>

definition clamp_1_300 :: "int \<Rightarrow> int" where
  "clamp_1_300 t = max 1 (min 300 t)"

definition bash_context :: "int \<Rightarrow> ToolContext" where
  "bash_context seconds =
     \<lparr>WorkDir = ''/work'',
      ToolPermissions = \<lparr>AllowBash = True, AllowFileRead = True, AllowFileWrite = True,
                         AllowGit = True, AllowGitHub = True, AllowNetwork = True\<rparr>,
      ToolGitHubToken = [], RepoOwner = [], RepoName = [], Env = [], BashTimeout = seconds\<rparr>"

definition slow_command :: "string \<Rightarrow> int \<Rightarrow> CmdOutcome" where
  "slow_command command timeout =
     \<lparr>stdout = ''partial'', stderr = [], run_err = Some ''signal: killed'',
      ctx_err = Some DeadlineExceeded\<rparr>"


section \<open>File paths (package path/filepath, on Unix)\<close>

text \<open>
  The functions of the standard library that the repository calls on paths, read by path
  elements.  \<open>Clean\<close> drops empty elements and \<open>.\<close> elements, lets a \<open>..\<close> element remove
  the element before it (or vanish at the root), and gives \<open>.\<close> for an empty result.
\<close>

definition IsAbs :: "string \<Rightarrow> bool" where
  "IsAbs path = (take 1 path = ''/'')"

definition HasPrefix :: "string \<Rightarrow> string \<Rightarrow> bool" where
  "HasPrefix s pre = (take (length pre) s = pre)"

definition path_elements :: "string \<Rightarrow> string list" where
  "path_elements path = filter (\<lambda>e. e \<noteq> []) (split_on CHR ''/'' path)"

definition clean_step :: "bool \<Rightarrow> string list \<Rightarrow> string \<Rightarrow> string list" where
  "clean_step rooted out e =
     (if e = ''.'' then out
      else if e = ''..'' then
        (if out \<noteq> [] \<and> last out \<noteq> ''..'' then butlast out
         else if rooted then out
         else out @ [e])
      else out @ [e])"

definition Clean :: "string \<Rightarrow> string" where
  "Clean path =
     (let rooted = IsAbs path;
          out = foldl (clean_step rooted) [] (path_elements path);
          s = (if rooted then ''/'' else []) @ join ''/'' out
      in if s = [] then ''.'' else s)"

text \<open>\<open>Join\<close> cleans the elements from the first non-empty one on, joined by slashes.\<close>

definition Join :: "string list \<Rightarrow> string" where
  "Join elem =
     (case dropWhile (\<lambda>e. e = []) elem of
        [] \<Rightarrow> []
      | e # es \<Rightarrow> Clean (join ''/'' (e # es)))"

text \<open>\<open>Abs\<close> needs the current directory, which \<open>os.Getwd\<close> gives or fails to give.\<close>

definition Abs :: "string + string \<Rightarrow> string \<Rightarrow> string + string" where
  "Abs getwd path =
     (if IsAbs path then Inr (Clean path)
      else case getwd of Inl err \<Rightarrow> Inl err | Inr wd \<Rightarrow> Inr (Join [wd, path]))"

text \<open>
  \<open>Rel\<close> compares the cleaned paths element by element.  Both must be rooted or both
  unrooted.  After the common elements, each remaining element of the base costs one
  \<open>..\<close>; a remaining base element \<open>..\<close> that differs from the target's is an error.
\<close>

fun strip_common :: "string list \<Rightarrow> string list \<Rightarrow> string list \<times> string list" where
  "strip_common (b # bs) (t # ts) = (if b = t then strip_common bs ts else (b # bs, t # ts))"
| "strip_common bs ts = (bs, ts)"

definition Rel :: "string \<Rightarrow> string \<Rightarrow> string + string" where
  "Rel basepath targpath =
     (let base = Clean basepath; targ = Clean targpath
      in if targ = base then Inr ''.''
         else
           let base = (if base = ''.'' then [] else base)
           in if IsAbs base \<noteq> IsAbs targ
              then Inl (''Rel: can'' @ [CHR 0x27] @ ''t make '' @ targpath @ '' relative to '' @ basepath)
              else
                (case strip_common (path_elements base) (path_elements targ) of
                   (bs, ts) \<Rightarrow>
                     if bs \<noteq> [] \<and> ts \<noteq> [] \<and> hd bs = ''..''
                     then Inl (''Rel: can'' @ [CHR 0x27] @ ''t make '' @ targpath @ '' relative to '' @ basepath)
                     else if bs \<noteq> []
                     then Inr (join ''/'' (replicate (length bs) ''..'')
                               @ (if ts \<noteq> [] then ''/'' @ join ''/'' ts else []))
                     else Inr (join ''/'' ts)))"


subsection \<open>ToolContext.ValidatePath\<close>

definition ValidatePath :: "string + string \<Rightarrow> ToolContext \<Rightarrow> string \<Rightarrow> toolError + string" where
  "ValidatePath getwd c path =
     (if WorkDir c = [] then Inl ErrNoWorkDir
      else
        let absPath = (if IsAbs path then Clean path else Clean (Join [WorkDir c, path]))
        in case Abs getwd (WorkDir c) of
             Inl err \<Rightarrow> Inl (ErrOther err)
           | Inr absWorkDir0 \<Rightarrow>
               (let absWorkDir = Clean absWorkDir0
                in case Rel absWorkDir absPath of
                     Inl err \<Rightarrow> Inl ErrPathOutsideWorkDir
                   | Inr rel \<Rightarrow>
                       if HasPrefix rel ''..'' then Inl ErrPathOutsideWorkDir
                       else Inr absPath))"

text \<open>
  The specification's reading of the test: the canonical form of the path is the workspace
  root or lies below it, that is, the elements of the root are the first elements of the
  path.
\<close>

definition within_root :: "string \<Rightarrow> string \<Rightarrow> bool" where
  "within_root rootDir p =
     (IsAbs rootDir \<and> IsAbs p
      \<and> take (length (path_elements (Clean rootDir))) (path_elements (Clean p))
          = path_elements (Clean rootDir))"


section \<open>The git client (package gitutil)\<close>



















section \<open>JSON (package encoding/json)\<close>
















subsection \<open>Unquoting a string\<close>






subsection \<open>Unmarshal into a Response\<close>













section \<open>The LLM output parser (package llm)\<close>














section \<open>Properties of the history management\<close>



lemma find_tool_use_msg_bounds:
  "find_tool_use_msg messages n tid = Some j \<Longrightarrow> 1 \<le> j \<and> j \<le> n"
  by (induction n) (auto split: if_splits)

lemma expand_pass_bounds:
  "expand_pass messages keepFrom ids bs = Some j \<Longrightarrow> 1 \<le> j \<and> j \<le> keepFrom - 1"
  by (induction bs) (auto split: if_splits option.splits dest: find_tool_use_msg_bounds)

lemma expand_keepFrom_le: "expand_keepFrom n messages k \<le> k"
proof (induction n arbitrary: k)
  case 0
  show ?case by simp
next
  case (Suc n)
  show ?case
  proof (cases "expand_pass messages k (collectToolUseIDs messages k True) (blocks_of (drop k messages))")
    case None
    then show ?thesis by simp
  next
    case (Some j)
    from expand_pass_bounds[OF Some] have "j \<le> k" by arith
    with Suc[of j] Some show ?thesis by simp
  qed
qed




lemma truncateMessages_long:
  assumes "1 \<le> maxMessages" "int (length messages) > maxMessages"
  shows "truncateMessages messages maxMessages =
           Inr (hd messages # drop (expand_keepFrom 100 messages (nat (int (length messages) - maxMessages + 1))) messages)"
proof -
  let ?k0 = "nat (int (length messages) - maxMessages + 1)"
  have ne: "messages \<noteq> []" using assms by auto
  have "expand_keepFrom 100 messages ?k0 \<le> ?k0" by (rule expand_keepFrom_le)
  also have "?k0 \<le> length messages" using assms by simp
  finally have le: "expand_keepFrom 100 messages ?k0 \<le> length messages" .
  show ?thesis using assms ne le by (simp add: truncateMessages_def Let_def)
qed

text \<open>
  Claim C10.  A conversation of at most \<open>KeepRecent + 1\<close> messages is returned
  unchanged by \<open>Compact\<close>, with no error and without any provider request, whatever the
  configuration (compaction enabled or not) and whatever the provider would answer.
\<close>

theorem Compact_short_unchanged:
  "int (length messages) \<le> KeepRecent config + 1
   \<Longrightarrow> Compact provider config noInput messages = Inr ((messages, None), [])"
  by (simp add: Compact_def)




lemma tool_use_ids_iff:
  "x \<in> tool_use_ids bs \<longleftrightarrow> x \<noteq> [] \<and> (\<exists>u \<in> set bs. Type u = ContentTypeToolUse \<and> ID u = x)"
  by (auto simp: tool_use_ids_def)

lemma block_orphans_Nil_iff:
  "block_orphans ids i b = [] \<longleftrightarrow>
     (Type b = ContentTypeToolResult \<longrightarrow> ToolUseID b \<noteq> [] \<and> ToolUseID b \<in> ids)"
  by (simp add: block_orphans_def)

lemma message_orphans_Nil_iff:
  "message_orphans ids (i, m) = [] \<longleftrightarrow>
     (\<forall>b \<in> set (MContent m). Type b = ContentTypeToolResult \<longrightarrow> ToolUseID b \<noteq> [] \<and> ToolUseID b \<in> ids)"
  by (simp add: message_orphans_def block_orphans_Nil_iff)

lemma all_orphans_Nil_iff:
  "concat (map (message_orphans ids) (enumerate n messages)) = [] \<longleftrightarrow>
     (\<forall>b \<in> set (blocks_of messages). Type b = ContentTypeToolResult \<longrightarrow> ToolUseID b \<noteq> [] \<and> ToolUseID b \<in> ids)"
proof (induction messages arbitrary: n)
  case Nil
  show ?case by (simp add: blocks_of_def)
next
  case (Cons m ms)
  have "blocks_of (m # ms) = MContent m @ blocks_of ms" by (simp add: blocks_of_def)
  then show ?case using Cons[of "Suc n"] by (auto simp: message_orphans_Nil_iff)
qed

lemma validateToolPairs_None_iff:
  "validateToolPairs messages = None \<longleftrightarrow>
     (\<forall>b \<in> set (blocks_of messages). Type b = ContentTypeToolResult \<longrightarrow>
        ToolUseID b \<noteq> [] \<and>
        (\<exists>u \<in> set (blocks_of messages). Type u = ContentTypeToolUse \<and> ID u = ToolUseID b))"
proof -
  have "validateToolPairs messages = None \<longleftrightarrow>
        concat (map (message_orphans (tool_use_ids (blocks_of messages))) (enumerate 0 messages)) = []"
    by (simp add: validateToolPairs_def Let_def)
  then show ?thesis
    unfolding all_orphans_Nil_iff by (auto simp: tool_use_ids_iff)
qed

lemma truncateMessages_total:
  assumes "1 \<le> maxMessages"
  shows "\<exists>r. truncateMessages messages maxMessages = Inr r"
proof (cases "int (length messages) \<le> maxMessages")
  case True
  then show ?thesis by (simp add: truncateMessages_def)
next
  case False
  then show ?thesis using truncateMessages_long[OF assms, of messages] by simp
qed

lemma Compact_total:
  assumes "0 \<le> KeepRecent config"
  shows "\<exists>ms calls. Compact provider config noInput messages = Inr ((ms, None), calls)"
proof -
  obtain t where t: "truncateMessages messages (KeepRecent config + 1) = Inr t"
    using truncateMessages_total[of "KeepRecent config + 1" messages] assms by auto
  show ?thesis using assms t
    by (auto simp: Compact_def Let_def split: sum.splits)
qed

lemma Compact_err_None:
  "Compact provider config noInput messages = Inr ((ms, err), calls) \<Longrightarrow> err = None"
  by (auto simp: Compact_def Let_def split: sum.splits if_splits)

text \<open>
  Claim C1, as the code has it.  With a non-negative \<open>KeepRecent\<close> the history management
  of an iteration does not panic.  Whenever it returns, the list sent to the provider either
  passes \<open>validateToolPairs\<close>, which means that every tool-result block has a non-empty id
  and that a tool-use block with this id occurs somewhere in the same list (before or after
  the result), or it is the message list of the loop state.  That list is the full history
  when the compaction did not run in this iteration, and the compacted list when it did:
  only the truncation is undone by the fallback.
\<close>

theorem Run_history_tool_pairs:
  "(0 \<le> KeepRecent config \<longrightarrow>
      (\<exists>sent st. Run_history provider config reqMaxMessages noInput messages = Inr (sent, st)))
   \<and> (\<forall>sent st. Run_history provider config reqMaxMessages noInput messages = Inr (sent, st) \<longrightarrow>
        ((\<forall>b \<in> set (blocks_of sent). Type b = ContentTypeToolResult \<longrightarrow>
             ToolUseID b \<noteq> [] \<and>
             (\<exists>u \<in> set (blocks_of sent). Type u = ContentTypeToolUse \<and> ID u = ToolUseID b))
         \<or> sent = st)
        \<and> (\<not> ShouldCompact config messages \<longrightarrow> st = messages)
        \<and> (ShouldCompact config messages \<longrightarrow>
             (\<exists>calls. Compact provider config noInput messages = Inr ((st, None), calls))))"
proof (intro conjI impI allI)
  let ?maxM = "if reqMaxMessages \<le> 0 then defaultMaxMessages else reqMaxMessages"
  have maxM: "1 \<le> ?maxM" by (simp add: defaultMaxMessages_def)
  {
    assume kr: "0 \<le> KeepRecent config"
    obtain ms calls where c: "Compact provider config noInput messages = Inr ((ms, None), calls)"
      using Compact_total[OF kr, of provider noInput messages] by blast
    obtain t1 where t1: "truncateMessages ms ?maxM = Inr t1"
      using truncateMessages_total[OF maxM, of ms] by blast
    obtain t2 where t2: "truncateMessages messages ?maxM = Inr t2"
      using truncateMessages_total[OF maxM, of messages] by blast
    show "\<exists>sent st. Run_history provider config reqMaxMessages noInput messages = Inr (sent, st)"
      using c t1 t2 by (auto simp: Run_history_def Let_def split: option.splits)
  }
  fix sent st
  assume r: "Run_history provider config reqMaxMessages noInput messages = Inr (sent, st)"
  show "(\<forall>b \<in> set (blocks_of sent). Type b = ContentTypeToolResult \<longrightarrow>
             ToolUseID b \<noteq> [] \<and>
             (\<exists>u \<in> set (blocks_of sent). Type u = ContentTypeToolUse \<and> ID u = ToolUseID b))
         \<or> sent = st"
  proof (cases "validateToolPairs sent")
    case None
    then show ?thesis unfolding validateToolPairs_None_iff by blast
  next
    case (Some e)
    then have "sent = st" using r
      by (auto simp: Run_history_def Let_def split: sum.splits option.splits if_splits prod.splits)
    then show ?thesis ..
  qed
  {
    assume "\<not> ShouldCompact config messages"
    then show "st = messages" using r
      by (auto simp: Run_history_def Let_def split: sum.splits option.splits if_splits prod.splits)
  }
  {
    assume sc: "ShouldCompact config messages"
    then have en: "Enabled config" by (auto simp: ShouldCompact_def split: if_splits)
    show "\<exists>calls. Compact provider config noInput messages = Inr ((st, None), calls)"
      using r sc en
      by (auto simp: Run_history_def Let_def dest: Compact_err_None
               split: sum.splits option.splits if_splits prod.splits)
  }
qed



lemma expand_keepFrom_100:
  "expand_keepFrom 100 messages keepFrom =
     (case expand_pass messages keepFrom (collectToolUseIDs messages keepFrom True)
             (blocks_of (drop keepFrom messages)) of
        None \<Rightarrow> keepFrom
      | Some j \<Rightarrow> expand_keepFrom 99 messages j)"
proof -
  have "(100::nat) = Suc 99" by simp
  then show ?thesis by (metis expand_keepFrom.simps(2))
qed

lemma tool_use_ids_Nil: "tool_use_ids [] = {}"
  by (simp add: tool_use_ids_def)

lemma tool_use_ids_Cons:
  "tool_use_ids (b # bs) =
     (if Type b = ContentTypeToolUse \<and> ID b \<noteq> [] then insert (ID b) (tool_use_ids bs)
      else tool_use_ids bs)"
  by (simp add: tool_use_ids_def)

lemmas example_message_defs =
  NewTextMessage_def NewToolResultMessage_def tool_use_message_def summary_message_def

lemmas tool_pair_defs =
  collectToolUseIDs_def tool_use_ids_Nil tool_use_ids_Cons blocks_of_def validateToolPairs_def
  message_orphans_def block_orphans_def has_tool_use_def

lemma truncate_A:
  "truncateMessages conversation_A 3 =
     Inr [NewTextMessage RoleUser ''task'' (),
          NewToolResultMessage ''a'' ''out'' False (), tool_use_message ''a'' ''bash'' ()]"
  by (simp add: conversation_A_def truncateMessages_def expand_keepFrom_100 tool_pair_defs
      example_message_defs Let_def)

lemma validate_A:
  "validateToolPairs [NewTextMessage RoleUser ''task'' (),
          NewToolResultMessage ''a'' ''out'' False (), tool_use_message ''a'' ''bash'' ()] = None"
  by (simp add: tool_pair_defs example_message_defs Let_def)

lemma history_A:
  "Run_history failing_provider \<lparr>Enabled = False, Threshold = 30, KeepRecent = 10\<rparr> 3 () conversation_A
     = Inr ([NewTextMessage RoleUser ''task'' (),
             NewToolResultMessage ''a'' ''out'' False (), tool_use_message ''a'' ''bash'' ()],
            conversation_A)"
proof -
  have "length conversation_A = 4" by (simp add: conversation_A_def)
  then show ?thesis
    by (simp add: Run_history_def truncate_A validate_A)
qed

lemma compact_B:
  "Compact summarizing_provider \<lparr>Enabled = True, Threshold = 3, KeepRecent = 1\<rparr> () conversation_B
     = Inr (([NewTextMessage RoleUser ''task'' (), summary_message () 2 ''S'',
              NewToolResultMessage ''x'' ''out'' False ()], None),
            [summary_request () (formatMessagesForSummary
               [NewTextMessage RoleAssistant ''ok'' (), NewTextMessage RoleUser ''go on'' ()])])"
  by (simp add: Compact_def conversation_B_def generateSummary_def summarizing_provider_def
      GetText_def ensureToolPairsIntact_def tool_use_ids_Nil tool_use_ids_Cons blocks_of_def
      NewTextMessage_def NewToolResultMessage_def Let_def numeral_2_eq_2[symmetric])

lemma validate_B:
  "validateToolPairs [NewTextMessage RoleUser ''task'' (), summary_message () 2 ''S'',
              NewToolResultMessage ''x'' ''out'' False ()]
   = Some (OrphanedToolResults [(2, ''x'')])"
  by (simp add: tool_pair_defs example_message_defs Let_def)

lemma history_B:
  "Run_history summarizing_provider \<lparr>Enabled = True, Threshold = 3, KeepRecent = 1\<rparr> 0 () conversation_B
     = Inr ([NewTextMessage RoleUser ''task'' (), summary_message () 2 ''S'',
             NewToolResultMessage ''x'' ''out'' False ()],
            [NewTextMessage RoleUser ''task'' (), summary_message () 2 ''S'',
             NewToolResultMessage ''x'' ''out'' False ()])"
proof -
  have "length conversation_B = 4" by (simp add: conversation_B_def)
  then show ?thesis
    by (simp add: Run_history_def ShouldCompact_def compact_B validate_B defaultMaxMessages_def)
qed

text \<open>
  Claim C1 as stated fails twice.  On \<open>conversation_A\<close>, limited to three messages, the
  truncated list is sent because it passes the validation, although its tool result comes
  before its tool use.  On \<open>conversation_B\<close>, compacted with a successful summary, the
  validation fails and the list sent is the compacted one, not the untransformed history.
\<close>

theorem Run_history_counterexample:
  "Run_history failing_provider \<lparr>Enabled = False, Threshold = 30, KeepRecent = 10\<rparr> 3 () conversation_A
     = Inr ([NewTextMessage RoleUser ''task'' (),
             NewToolResultMessage ''a'' ''out'' False (), tool_use_message ''a'' ''bash'' ()],
            conversation_A)
   \<and> [NewTextMessage RoleUser ''task'' (),
        NewToolResultMessage ''a'' ''out'' False (), tool_use_message ''a'' ''bash'' ()] \<noteq> conversation_A
   \<and> \<not> tool_results_paired_earlier {}
         (blocks_of [NewTextMessage RoleUser ''task'' (),
            NewToolResultMessage ''a'' ''out'' False (), tool_use_message ''a'' ''bash'' ()])
   \<and> Run_history summarizing_provider \<lparr>Enabled = True, Threshold = 3, KeepRecent = 1\<rparr> 0 () conversation_B
     = Inr ([NewTextMessage RoleUser ''task'' (), summary_message () 2 ''S'',
             NewToolResultMessage ''x'' ''out'' False ()],
            [NewTextMessage RoleUser ''task'' (), summary_message () 2 ''S'',
             NewToolResultMessage ''x'' ''out'' False ()])
   \<and> [NewTextMessage RoleUser ''task'' (), summary_message () 2 ''S'',
        NewToolResultMessage ''x'' ''out'' False ()] \<noteq> conversation_B
   \<and> \<not> tool_results_paired_earlier {}
         (blocks_of [NewTextMessage RoleUser ''task'' (), summary_message () 2 ''S'',
            NewToolResultMessage ''x'' ''out'' False ()])"
proof -
  have a: "[NewTextMessage RoleUser ''task'' (),
        NewToolResultMessage ''a'' ''out'' False (), tool_use_message ''a'' ''bash'' ()] \<noteq> conversation_A"
    by (simp add: conversation_A_def)
  have b: "\<not> tool_results_paired_earlier {}
         (blocks_of [NewTextMessage RoleUser ''task'' (),
            NewToolResultMessage ''a'' ''out'' False (), tool_use_message ''a'' ''bash'' ()])"
    by (simp add: blocks_of_def example_message_defs)
  have c: "[NewTextMessage RoleUser ''task'' (), summary_message () 2 ''S'',
        NewToolResultMessage ''x'' ''out'' False ()] \<noteq> conversation_B"
    by (simp add: conversation_B_def)
  have d: "\<not> tool_results_paired_earlier {}
         (blocks_of [NewTextMessage RoleUser ''task'' (), summary_message () 2 ''S'',
            NewToolResultMessage ''x'' ''out'' False ()])"
    by (simp add: blocks_of_def example_message_defs)
  show ?thesis using history_A history_B a b c d by blast
qed

text \<open>The statement about the history management, at \<open>conversation_A\<close>.\<close>

theorem Run_history_tool_pairs_witness:
  "0 \<le> KeepRecent \<lparr>Enabled = False, Threshold = 30, KeepRecent = 10\<rparr>
   \<and> Run_history failing_provider \<lparr>Enabled = False, Threshold = 30, KeepRecent = 10\<rparr> 3 () conversation_A
     = Inr ([NewTextMessage RoleUser ''task'' (),
             NewToolResultMessage ''a'' ''out'' False (), tool_use_message ''a'' ''bash'' ()],
            conversation_A)
   \<and> \<not> ShouldCompact \<lparr>Enabled = False, Threshold = 30, KeepRecent = 10\<rparr> conversation_A
   \<and> validateToolPairs [NewTextMessage RoleUser ''task'' (),
             NewToolResultMessage ''a'' ''out'' False (), tool_use_message ''a'' ''bash'' ()] = None"
  using Run_history_tool_pairs [of "\<lparr>Enabled = False, Threshold = 30, KeepRecent = 10\<rparr>"
          failing_provider 3 "()" conversation_A]
  by (simp add: history_A validate_A ShouldCompact_def)

text \<open>The short-conversation case at \<open>conversation_B\<close> with \<open>KeepRecent = 10\<close>.\<close>

theorem Compact_short_unchanged_witness:
  "int (length conversation_B) \<le> KeepRecent \<lparr>Enabled = True, Threshold = 3, KeepRecent = 10\<rparr> + 1
   \<and> Compact failing_provider \<lparr>Enabled = True, Threshold = 3, KeepRecent = 10\<rparr> () conversation_B
       = Inr ((conversation_B, None), [])"
proof -
  have h: "int (length conversation_B) \<le> KeepRecent \<lparr>Enabled = True, Threshold = 3, KeepRecent = 10\<rparr> + 1"
    by (simp add: conversation_B_def)
  show ?thesis using h Compact_short_unchanged [OF h, of failing_provider "()"] by simp
qed






section \<open>Properties of the workflow engine\<close>

lemma updateProgressLabels_set:
  assumes "\<forall>xs. set (order xs) = set xs"
  shows "set (updateProgressLabels order current add remove) =
           (set current - (set remove - {[]})) \<union> (if add \<noteq> [] then {add} else {})"
  using assms by (auto simp: updateProgressLabels_def Let_def)

text \<open>
  Claim C3.  Let the three status labels and the trigger labels be non-empty and pairwise
  distinct, and let the iteration over a Go map visit exactly its keys.  For every list of
  current labels, each of the three label transitions of the engine (to in-progress at
  step 8, to needs-info at step 11, to done at step 18) gives a label list that contains,
  of the three status labels, exactly the target of the transition, and contains no
  trigger label.
\<close>

theorem label_transitions:
  assumes ord: "\<forall>xs. set (order xs) = set xs"
    and ne: "InProgressLabel cfg \<noteq> []" "NeedsInfoLabel cfg \<noteq> []" "DoneLabel cfg \<noteq> []"
            "[] \<notin> set (TriggerLabels cfg)"
    and dist: "distinct ([InProgressLabel cfg, NeedsInfoLabel cfg, DoneLabel cfg] @ TriggerLabels cfg)"
  shows "set (labels_in_progress cfg order current)
             \<inter> {InProgressLabel cfg, NeedsInfoLabel cfg, DoneLabel cfg} = {InProgressLabel cfg}
       \<and> set (labels_in_progress cfg order current) \<inter> set (TriggerLabels cfg) = {}
       \<and> set (labels_needs_info cfg order current)
             \<inter> {InProgressLabel cfg, NeedsInfoLabel cfg, DoneLabel cfg} = {NeedsInfoLabel cfg}
       \<and> set (labels_needs_info cfg order current) \<inter> set (TriggerLabels cfg) = {}
       \<and> set (labels_done cfg order current)
             \<inter> {InProgressLabel cfg, NeedsInfoLabel cfg, DoneLabel cfg} = {DoneLabel cfg}
       \<and> set (labels_done cfg order current) \<inter> set (TriggerLabels cfg) = {}"
proof -
  have a: "set (labels_in_progress cfg order current) =
             (set current - (set ([DoneLabel cfg, NeedsInfoLabel cfg] @ TriggerLabels cfg) - {[]}))
             \<union> {InProgressLabel cfg}"
    using ne by (simp add: labels_in_progress_def updateProgressLabels_set[OF ord])
  have b: "set (labels_needs_info cfg order current) =
             (set current - (set ([InProgressLabel cfg, DoneLabel cfg] @ TriggerLabels cfg) - {[]}))
             \<union> {NeedsInfoLabel cfg}"
    using ne by (simp add: labels_needs_info_def updateProgressLabels_set[OF ord])
  have c: "set (labels_done cfg order current) =
             (set current - (set ([InProgressLabel cfg, NeedsInfoLabel cfg] @ TriggerLabels cfg) - {[]}))
             \<union> {DoneLabel cfg}"
    using ne by (simp add: labels_done_def updateProgressLabels_set[OF ord])
  show ?thesis unfolding a b c using ne dist by auto
qed












text \<open>
  The default labels, on an issue labelled \<open>ai-ready\<close>, \<open>ai-in-progress\<close> and \<open>bug\<close>.
\<close>

theorem label_transitions_witness:
  "(\<forall>xs::string list. set ((\<lambda>keys. keys) xs) = set xs)
   \<and> InProgressLabel sample_config \<noteq> [] \<and> NeedsInfoLabel sample_config \<noteq> []
   \<and> DoneLabel sample_config \<noteq> [] \<and> [] \<notin> set (TriggerLabels sample_config)
   \<and> distinct ([InProgressLabel sample_config, NeedsInfoLabel sample_config, DoneLabel sample_config]
                 @ TriggerLabels sample_config)
   \<and> set (labels_done sample_config (\<lambda>keys. keys) [''ai-ready'', ''ai-in-progress'', ''bug''])
         \<inter> {InProgressLabel sample_config, NeedsInfoLabel sample_config, DoneLabel sample_config}
       = {''ai-done''}
   \<and> set (labels_done sample_config (\<lambda>keys. keys) [''ai-ready'', ''ai-in-progress'', ''bug''])
         \<inter> set (TriggerLabels sample_config) = {}"
proof -
  have h1: "\<forall>xs::string list. set ((\<lambda>keys. keys) xs) = set xs" by simp
  have h2: "InProgressLabel sample_config \<noteq> []" "NeedsInfoLabel sample_config \<noteq> []"
      "DoneLabel sample_config \<noteq> []" "[] \<notin> set (TriggerLabels sample_config)"
    by (simp_all add: sample_config_def)
  have h3: "distinct ([InProgressLabel sample_config, NeedsInfoLabel sample_config, DoneLabel sample_config]
                 @ TriggerLabels sample_config)"
    by (simp add: sample_config_def)
  have d: "DoneLabel sample_config = ''ai-done''" by (simp add: sample_config_def)
  show ?thesis
    using label_transitions [OF h1 h2 h3, of "[''ai-ready'', ''ai-in-progress'', ''bug'']"] h1 h2 h3 d
    by simp
qed


section \<open>Properties of the bash tool\<close>

text \<open>
  Claim C9, as the code has it.  The timeout of a bash invocation is the requested one,
  cut to a whole number, when the input carries a positive number, and the default of the
  tool context otherwise; it is then capped at 300, and replaced by 60 (not raised to 1)
  when it is below 1.  So it always lies between 1 and 300 seconds.  When the command is
  allowed to run and its run ends with an error after the deadline has passed, the tool
  returns a result with the error flag whose content is \<open>Command timed out after\<close>, the
  timeout in decimal, \<open>seconds\<close>, a newline and the captured output.
\<close>

theorem bash_timeout_effective:
  "1 \<le> bash_timeout unfit toolCtx input \<and> bash_timeout unfit toolCtx input \<le> 300
   \<and> bash_timeout unfit toolCtx input =
        (let requested = (case input ''timeout'' of
                            Some (Float64 t) \<Rightarrow>
                              if t > 0 then float64_to_int unfit t else BashTimeout toolCtx
                          | _ \<Rightarrow> BashTimeout toolCtx)
         in if requested > 300 then 300 else if requested < 1 then 60 else requested)
   \<and> (AllowBash (ToolPermissions toolCtx) \<and> input ''command'' = Some (String command)
        \<and> command \<noteq> [] \<and> validateCommand command = None
        \<and> run_err (run_bash command (bash_timeout unfit toolCtx input)) = Some err
        \<and> ctx_err (run_bash command (bash_timeout unfit toolCtx input)) = Some DeadlineExceeded
       \<longrightarrow> Execute run_bash unfit toolCtx input =
             \<lparr>ResultContent = ''Command timed out after ''
                               @ int_dec (bash_timeout unfit toolCtx input) @ '' seconds''
                               @ [CHR 0x0A]
                               @ command_output (run_bash command (bash_timeout unfit toolCtx input)),
              ResultIsError = True\<rparr>)"
proof (intro conjI impI)
  show "1 \<le> bash_timeout unfit toolCtx input"
    by (simp add: bash_timeout_def Let_def split: option.splits go_value.splits)
  show "bash_timeout unfit toolCtx input \<le> 300"
    by (simp add: bash_timeout_def Let_def split: option.splits go_value.splits)
  show "bash_timeout unfit toolCtx input =
        (let requested = (case input ''timeout'' of
                            Some (Float64 t) \<Rightarrow>
                              if t > 0 then float64_to_int unfit t else BashTimeout toolCtx
                          | _ \<Rightarrow> BashTimeout toolCtx)
         in if requested > 300 then 300 else if requested < 1 then 60 else requested)"
    by (simp add: bash_timeout_def Let_def split: option.splits go_value.splits)
  assume a: "AllowBash (ToolPermissions toolCtx) \<and> input ''command'' = Some (String command)
        \<and> command \<noteq> [] \<and> validateCommand command = None
        \<and> run_err (run_bash command (bash_timeout unfit toolCtx input)) = Some err
        \<and> ctx_err (run_bash command (bash_timeout unfit toolCtx input)) = Some DeadlineExceeded"
  then show "Execute run_bash unfit toolCtx input =
             \<lparr>ResultContent = ''Command timed out after ''
                               @ int_dec (bash_timeout unfit toolCtx input) @ '' seconds''
                               @ [CHR 0x0A]
                               @ command_output (run_bash command (bash_timeout unfit toolCtx input)),
              ResultIsError = True\<rparr>"
    by (simp add: Execute_def CheckBash_def Let_def)
qed

lemma sleep_allowed: "validateCommand ''sleep 100'' = None"
  by code_simp

lemma timeout_2:
  "bash_timeout 0 (bash_context 60)
     ((\<lambda>k. None)(''command'' \<mapsto> String ''sleep 100'', ''timeout'' \<mapsto> Float64 2)) = 2"
  by (simp add: bash_timeout_def bash_context_def float64_to_int_def)

text \<open>
  A command that is killed at its deadline of two seconds.
\<close>

theorem bash_timeout_effective_witness:
  "AllowBash (ToolPermissions (bash_context 60))
   \<and> ((\<lambda>k. None)(''command'' \<mapsto> String ''sleep 100'', ''timeout'' \<mapsto> Float64 2)) ''command''
       = Some (String ''sleep 100'')
   \<and> ''sleep 100'' \<noteq> [] \<and> validateCommand ''sleep 100'' = None
   \<and> run_err (slow_command ''sleep 100'' 2) = Some ''signal: killed''
   \<and> ctx_err (slow_command ''sleep 100'' 2) = Some DeadlineExceeded
   \<and> Execute slow_command 0 (bash_context 60)
         ((\<lambda>k. None)(''command'' \<mapsto> String ''sleep 100'', ''timeout'' \<mapsto> Float64 2))
       = \<lparr>ResultContent = ''Command timed out after 2 seconds'' @ [CHR 0x0A] @ ''partial'',
          ResultIsError = True\<rparr>"
  using bash_timeout_effective [of 0 "bash_context 60"
          "(\<lambda>k. None)(''command'' \<mapsto> String ''sleep 100'', ''timeout'' \<mapsto> Float64 2)"
          "''sleep 100''" slow_command "''signal: killed''"]
  by (simp add: timeout_2 sleep_allowed)
     (simp add: bash_context_def slow_command_def command_output_def int_dec_def nat_dec.simps
        digit_char_def)

text \<open>
  Claim C9 as stated fails for a request of \<open>-5\<close> seconds with a default of 120 (the
  timeout is 120, the clamped request would be 1) and for a default of 0 without a request
  (the timeout is 60, the clamped default would be 1).
\<close>

theorem bash_timeout_counterexample:
  "bash_timeout 0 (bash_context 120) ((\<lambda>k. None)(''timeout'' \<mapsto> Float64 (- 5))) = 120
   \<and> clamp_1_300 (- 5) = 1
   \<and> bash_timeout 0 (bash_context 0) (\<lambda>k. None) = 60
   \<and> clamp_1_300 0 = 1"
  by (simp add: bash_timeout_def bash_context_def clamp_1_300_def)


section \<open>Properties of the git client\<close>













section \<open>ValidatePath at two paths inside the workspace\<close>

lemma validate_dotdot_name:
  "ValidatePath (Inr ''/srv'') (bash_context 60) ''..cache/x'' = Inl ErrPathOutsideWorkDir"
  by code_simp

lemma clean_dotdot_name: "Clean (Join [''/work'', ''..cache/x'']) = ''/work/..cache/x''"
  by code_simp

lemma within_dotdot_name: "within_root ''/work'' ''/work/..cache/x''"
  by code_simp

lemma validate_relative_workdir:
  "ValidatePath (Inr ''/srv'') ((bash_context 60)\<lparr>WorkDir := ''workdir/repo''\<rparr>) ''README.md''
     = Inl ErrPathOutsideWorkDir"
  by code_simp

lemma within_relative_workdir:
  "within_root (Join [''/srv'', ''workdir/repo'']) (Join [''/srv'', ''workdir/repo'', ''README.md''])"
  by code_simp

text \<open>
  Claim C2 fails on the code.  In the workspace \<open>/work\<close> the path \<open>..cache/x\<close> resolves to
  \<open>/work/..cache/x\<close>, which lies below the root; \<open>Rel\<close> gives \<open>..cache/x\<close>, and the test for
  the prefix \<open>..\<close> rejects it.  With the relative workspace \<open>workdir/repo\<close> and the
  current directory \<open>/srv\<close>, the path \<open>README.md\<close> is joined to the relative workspace,
  \<open>Rel\<close> cannot relate it to the absolute workspace, and it is rejected as well.
\<close>

theorem ValidatePath_rejects_inside:
  "WorkDir (bash_context 60) = ''/work''
   \<and> ValidatePath (Inr ''/srv'') (bash_context 60) ''..cache/x'' = Inl ErrPathOutsideWorkDir
   \<and> Clean (Join [''/work'', ''..cache/x'']) = ''/work/..cache/x''
   \<and> within_root ''/work'' ''/work/..cache/x''
   \<and> ValidatePath (Inr ''/srv'') ((bash_context 60)\<lparr>WorkDir := ''workdir/repo''\<rparr>) ''README.md''
       = Inl ErrPathOutsideWorkDir
   \<and> within_root (Join [''/srv'', ''workdir/repo'']) (Join [''/srv'', ''workdir/repo'', ''README.md''])"
  using validate_dotdot_name clean_dotdot_name within_dotdot_name validate_relative_workdir
    within_relative_workdir
  by (simp add: bash_context_def)


section \<open>Properties of the LLM output parser\<close>





































end
